theory Spec2Isabelle
  imports Complex_Main
begin

section \<open>Data model (src/src/types.ts)\<close>

text \<open>
  The types of \<^verbatim>\<open>types.ts\<close> that the hook \<^verbatim>\<open>useHumanChat\<close> works on. An optional
  TypeScript field \<^verbatim>\<open>f?: T\<close> is a \<open>T option\<close>, where \<open>None\<close> stands for
  \<^verbatim>\<open>undefined\<close> (and for \<^verbatim>\<open>null\<close> where the source uses it). Field names follow the
  source; a prefix is added where two interfaces share a field name or where the name is
  reserved (\<^verbatim>\<open>id\<close>, \<^verbatim>\<open>text\<close>, \<^verbatim>\<open>type\<close>, \<^verbatim>\<open>status\<close>).
\<close>

datatype ChatMode = IDLE | SEARCHING | WAITING | CONNECTED | DISCONNECTED | ERROR

datatype SessionType = TypeRandom | TypeDirect

record UserProfile =
  uid :: "string option"
  username :: string
  age :: string
  gender :: string
  interests :: "string list"
  location :: string

datatype MessageType = MText | MImage | MAudio

datatype Sender = Me | Stranger | System

datatype DeliveryStatus = Sent | Seen

text \<open>
  A frame's \<^verbatim>\<open>payload\<close> has type \<^verbatim>\<open>any\<close>. The values that the hook itself ever puts
  there are strings (text, base64 data, emoji), booleans (typing, recording, vanish mode)
  and profiles; \<open>None\<close> of \<open>JSValue option\<close> is \<^verbatim>\<open>undefined\<close>.
\<close>

datatype JSValue = JStr string | JBool bool | JProfile UserProfile

record Reaction =
  emoji :: "JSValue option"
  r_sender :: Sender

record ReplyInfo =
  reply_id :: string
  reply_text :: string
  reply_senderName :: string

record Message =
  msg_id :: string
  msg_text :: "JSValue option"
  fileData :: "JSValue option"
  msg_type :: MessageType
  sender :: Sender
  senderName :: "string option"
  senderPeerId :: "string option"
  senderProfile :: "JSValue option"
  timestamp :: nat
  isVanish :: "bool option"
  reactions :: "Reaction list option"
  isEdited :: "bool option"
  msg_status :: "DeliveryStatus option"
  replyTo :: "ReplyInfo option"
  expiryDuration :: "int option"
  expiresAt :: "int option"

datatype FrameType =
    T_message | T_typing | T_recording | T_disconnect | T_profile | T_profile_update
  | T_vanish_mode | T_reaction | T_edit_message | T_friend_request | T_friend_accept | T_seen

record PeerData =
  ptype :: FrameType
  payload :: "JSValue option"
  dataType :: "MessageType option"
  messageId :: "string option"
  frame_id :: "string option"
  frame_replyTo :: "ReplyInfo option"
  frame_expiryDuration :: "int option"
  frame_isVanish :: "bool option"

text \<open>
  The presence status: the interface \<^verbatim>\<open>PresenceState\<close> lists waiting, paired and busy;
  the hook also publishes idle.
\<close>

datatype PresenceStatus = P_idle | P_waiting | P_paired | P_busy

record PresenceState =
  ps_peerId :: string
  ps_status :: PresenceStatus
  ps_timestamp :: nat
  ps_profile :: "UserProfile option"

record RecentPeer =
  rp_id :: string
  rp_peerId :: string
  rp_profile :: JSValue
  metAt :: nat

record Friend =
  fr_id :: string
  fr_profile :: UserProfile
  addedAt :: nat
  lastSeen :: "nat option"

record FriendRequest =
  rq_peerId :: string
  rq_profile :: UserProfile

record ConnectionMetadata =
  mtype :: SessionType

record DirectMessageEvent =
  dm_peerId :: string
  dm_message :: Message

datatype StatusKind = K_typing | K_recording

record DirectStatusEvent =
  ds_peerId :: string
  ds_type :: StatusKind
  ds_value :: "JSValue option"

record ReactionEvent =
  re_peerId :: string
  re_messageId :: "string option"
  re_emoji :: "JSValue option"
  re_sender :: Sender

section \<open>The transport and the hook's state (src/src/hooks/useHumanChat.ts)\<close>

text \<open>
  A \<^verbatim>\<open>DataConnection\<close> of the transport library is a handle: an identity and the
  remote peer id \<^verbatim>\<open>conn.peer\<close>. Its mutable flag \<^verbatim>\<open>conn.open\<close> lives in the state
  (\<open>openConns\<close>). The library and the presence channel are outside the repository: what
  the hook asks of them is recorded in the state as a list of effects, in order, and
  their callbacks are the handler functions below, which the environment invokes.

  Two callbacks the library runs from inside a call of the hook, before the call
  returns: \<^verbatim>\<open>close()\<close> on an open connection clears \<^verbatim>\<open>open\<close> and runs the close
  callback, and \<^verbatim>\<open>send()\<close> on a connection that is not open sends nothing and runs the
  error callback. \<open>conn_close_sync\<close> and \<open>conn_send_sync\<close> below say so, and the hook's
  functions use them wherever a callback can be registered and can change the outcome.
  A connection that the hook closes before it has set it up has no callbacks; the open
  and the data callback run on an open connection, whose \<^verbatim>\<open>send()\<close> goes out.
\<close>

record DataConnection =
  conn_id :: nat
  peer :: string

datatype effect =
    Send DataConnection PeerData
  | Close DataConnection
  | Dial string SessionType
  | Track PresenceStatus nat

text \<open>
  What the hook can raise: a TypeError, an exception of the transport library, and a
  TypeError inside a state updater, which surfaces when React renders.
\<close>

datatype js_error = TypeError | TransportError | RenderError

text \<open>
  The state holds the React state variables and the refs of the hook, its parameter
  \<^verbatim>\<open>userProfile\<close>, and what is pending in the scheduler:
  \<^item> \<open>status\<close> is the React state, \<open>statusRef\<close> the ref that an effect copies from
    it after each render (\<open>render\<close> below); callbacks read the ref;
  \<^item> \<open>connHandlers\<close> records for which connections \<^verbatim>\<open>setupConnection\<close> registered
    its callbacks, and with which \<^verbatim>\<open>isMain\<close>;
  \<^item> \<open>connectionTimeout\<close> is the armed and not yet fired or cleared timer of
    \<^verbatim>\<open>connectionTimeoutRef\<close>, with the connection and the peer id its closure holds;
  \<^item> \<open>pendingJitter\<close> lists the targets of the jitter callbacks that are scheduled
    and have not run (they are never cancelled); a target is \<open>None\<close> when the array
    read that chose it was out of range;
  \<^item> \<open>peerRef\<close> and \<open>channelRef\<close> say whether the ref holds an object;
  \<^item> \<open>recent_peers\<close> is the local-storage entry of that name.
\<close>

record State =
  messages :: "Message list"
  status :: ChatMode
  partnerTyping :: "JSValue option"
  partnerRecording :: "JSValue option"
  partnerProfile :: "JSValue option"
  remoteVanishMode :: "JSValue option"
  partnerPeerId :: "string option"
  onlineUsers :: "PresenceState list"
  myPeerId :: "string option"
  error :: "string option"
  disconnectReason :: "string option"
  incomingDirectMessage :: "DirectMessageEvent option"
  incomingReaction :: "ReactionEvent option"
  incomingDirectStatus :: "DirectStatusEvent option"
  friends :: "Friend list"
  friendRequests :: "FriendRequest list"
  activeDirectConnections :: "string set"
  notification :: "string option"
  userProfile :: "UserProfile option"
  peerRef :: bool
  mainConnRef :: "DataConnection option"
  directConnsRef :: "string \<rightharpoonup> DataConnection"
  directPeerProfilesRef :: "string \<rightharpoonup> JSValue"
  channelRef :: bool
  isMatchmakerRef :: bool
  statusRef :: ChatMode
  failedPeersRef :: "string set"
  openConns :: "nat set"
  connHandlers :: "nat \<rightharpoonup> bool"
  connectionTimeout :: "(DataConnection \<times> string) option"
  pendingJitter :: "PresenceState option list"
  recent_peers :: "RecentPeer list"
  effects :: "effect list"

text \<open>
  The result of a function of the hook that can raise: the new state, or the error with
  the state in which the function was left.
\<close>

type_synonym result = "(js_error \<times> State) + State"

subsection \<open>Calls into the transport and the presence channel\<close>

definition conn_close :: "DataConnection \<Rightarrow> State \<Rightarrow> State" where
  "conn_close c s = s\<lparr>openConns := openConns s - {conn_id c}, effects := effects s @ [Close c]\<rparr>"

definition conn_send :: "DataConnection \<Rightarrow> PeerData \<Rightarrow> State \<Rightarrow> State" where
  "conn_send c f s = s\<lparr>effects := effects s @ [Send c f]\<rparr>"

text \<open>
  \<^verbatim>\<open>channelRef.current?.track({peerId, status, timestamp: Date.now(), profile})\<close>: the
  effect records the status and the timestamp. The peer id and the profile of the
  published record are those of the closure that publishes, and are left out.
\<close>

definition track :: "PresenceStatus \<Rightarrow> nat \<Rightarrow> State \<Rightarrow> State" where
  "track st now s =
     (if channelRef s
      then s\<lparr>effects := effects s @ [Track st now]\<rparr>
      else s)"

text \<open>\<^verbatim>\<open>mainConnRef.current?.open\<close>\<close>

definition main_open :: "State \<Rightarrow> bool" where
  "main_open s = (case mainConnRef s of None \<Rightarrow> False | Some c \<Rightarrow> conn_id c \<in> openConns s)"

text \<open>A frame with only its \<^verbatim>\<open>type\<close> set; the senders fill in the other fields.\<close>

definition frame :: "FrameType \<Rightarrow> PeerData" where
  "frame t = \<lparr>ptype = t, payload = None, dataType = None, messageId = None, frame_id = None,
     frame_replyTo = None, frame_expiryDuration = None, frame_isVanish = None\<rparr>"

subsection \<open>Connection setup and the acceptance policy\<close>

text \<open>
  \<^verbatim>\<open>setupConnection\<close>, up to the registration of the callbacks. A second primary
  connection is closed and gets no callbacks.
\<close>

definition setupConnection :: "DataConnection \<Rightarrow> ConnectionMetadata \<Rightarrow> State \<Rightarrow> State" where
  "setupConnection conn metadata s =
     (let isMain = (mtype metadata = TypeRandom) in
      if isMain \<and> mainConnRef s \<noteq> None then conn_close conn s
      else
        (let s1 = (if isMain then s\<lparr>mainConnRef := Some conn\<rparr>
                   else s\<lparr>directConnsRef := (directConnsRef s)(peer conn \<mapsto> conn),
                          activeDirectConnections := insert (peer conn) (activeDirectConnections s)\<rparr>)
         in s1\<lparr>connHandlers := (connHandlers s1)(conn_id conn \<mapsto> isMain)\<rparr>))"

text \<open>
  \<^verbatim>\<open>peer.on('connection')\<close>. The metadata of an inbound connection may be missing:
  \<^verbatim>\<open>meta?.type\<close> is then \<^verbatim>\<open>undefined\<close>, and \<^verbatim>\<open>setupConnection\<close> raises a TypeError at
  \<^verbatim>\<open>metadata.type\<close>.
\<close>

definition peer_on_connection ::
  "DataConnection \<Rightarrow> ConnectionMetadata option \<Rightarrow> State \<Rightarrow> result" where
  "peer_on_connection conn meta s =
     (case meta of
        None \<Rightarrow> Inl (TypeError, s)
      | Some m \<Rightarrow>
          if mtype m = TypeRandom \<and> statusRef s \<noteq> SEARCHING \<and> statusRef s \<noteq> WAITING
          then Inr (conn_close conn s)
          else if mtype m = TypeRandom \<and> mainConnRef s \<noteq> None
          then Inr (conn_close conn s)
          else Inr (setupConnection conn m s))"

subsection \<open>JavaScript truthiness and number formatting\<close>

definition truthy_str :: "string option \<Rightarrow> bool" where
  "truthy_str x = (case x of None \<Rightarrow> False | Some v \<Rightarrow> v \<noteq> [])"

fun truthy :: "JSValue option \<Rightarrow> bool" where
  "truthy None = False"
| "truthy (Some (JStr v)) = (v \<noteq> [])"
| "truthy (Some (JBool b)) = b"
| "truthy (Some (JProfile p)) = True"

text \<open>\<^verbatim>\<open>Date.now().toString()\<close>: the decimal digits of a clock reading.\<close>

function toString :: "nat \<Rightarrow> string" where
  "toString n =
     (if n < 10 then [char_of (48 + n)]
      else toString (n div 10) @ [char_of (48 + n mod 10)])"
  by pat_completeness auto
termination
  by (relation "measure (\<lambda>n. n)") auto

declare toString.simps [simp del]

text \<open>\<^verbatim>\<open>v.uid\<close> and \<^verbatim>\<open>v.username\<close> of a value that is used as a profile.\<close>

fun uid_of :: "JSValue \<Rightarrow> string option" where
  "uid_of (JProfile p) = uid p"
| "uid_of _ = None"

fun username_of :: "JSValue \<Rightarrow> string option" where
  "username_of (JProfile p) = Some (username p)"
| "username_of _ = None"

text \<open>A value inside a template literal: \<^verbatim>\<open>undefined\<close> prints as that word.\<close>

definition template_str :: "string option \<Rightarrow> string" where
  "template_str x = (case x of None \<Rightarrow> ''undefined'' | Some v \<Rightarrow> v)"

subsection \<open>Session teardown and the user's actions\<close>

definition handleMainDisconnect :: "string \<Rightarrow> nat \<Rightarrow> State \<Rightarrow> State" where
  "handleMainDisconnect reason now s =
     track P_idle now
       (s\<lparr>disconnectReason := Some reason,
          status := DISCONNECTED,
          partnerProfile := None,
          partnerPeerId := None,
          remoteVanishMode := None,
          messages := [],
          mainConnRef := None,
          isMatchmakerRef := False\<rparr>)"

text \<open>\<^verbatim>\<open>conn.on('close')\<close> and \<^verbatim>\<open>conn.on('error')\<close>.\<close>

definition conn_on_close :: "DataConnection \<Rightarrow> bool \<Rightarrow> nat \<Rightarrow> State \<Rightarrow> State" where
  "conn_on_close conn isMain now s =
     (if isMain
      then (if statusRef s = CONNECTED then handleMainDisconnect ''network'' now s
            else if statusRef s = SEARCHING
            then s\<lparr>isMatchmakerRef := False, mainConnRef := None\<rparr>
            else s)
      else s\<lparr>directConnsRef := (directConnsRef s)(peer conn := None),
             directPeerProfilesRef := (directPeerProfilesRef s)(peer conn := None),
             activeDirectConnections := activeDirectConnections s - {peer conn}\<rparr>)"

definition conn_on_error :: "DataConnection \<Rightarrow> bool \<Rightarrow> nat \<Rightarrow> State \<Rightarrow> State" where
  "conn_on_error conn isMain now s =
     (if isMain
      then (if statusRef s = CONNECTED then handleMainDisconnect ''network'' now s
            else s\<lparr>isMatchmakerRef := False, mainConnRef := None\<rparr>)
      else s)"

text \<open>
  \<^verbatim>\<open>conn.close()\<close> and \<^verbatim>\<open>conn.send(f)\<close> with the callback that the library runs inside
  the call. \<open>cb\<close> is the \<^verbatim>\<open>isMain\<close> of the callbacks registered on the connection, if
  any, and \<open>t\<close> the clock reading that the callback takes.
\<close>

definition conn_close_sync ::
  "DataConnection \<Rightarrow> bool option \<Rightarrow> nat \<Rightarrow> State \<Rightarrow> State" where
  "conn_close_sync c cb t s =
     (if conn_id c \<in> openConns s
      then (case cb of
              None \<Rightarrow> conn_close c s
            | Some isMain \<Rightarrow> conn_on_close c isMain t (conn_close c s))
      else conn_close c s)"

definition conn_send_sync ::
  "DataConnection \<Rightarrow> PeerData \<Rightarrow> bool option \<Rightarrow> nat \<Rightarrow> State \<Rightarrow> State" where
  "conn_send_sync c f cb t s =
     (if conn_id c \<in> openConns s then conn_send c f s
      else (case cb of
              None \<Rightarrow> s
            | Some isMain \<Rightarrow> conn_on_error c isMain t s))"

definition connect :: "nat \<Rightarrow> State \<Rightarrow> State" where
  "connect now s =
     (if \<not> truthy_str (myPeerId s) then s
      else track P_waiting now
             (s\<lparr>status := SEARCHING, messages := [], error := None,
                disconnectReason := None, partnerProfile := None\<rparr>))"

text \<open>
  \<^verbatim>\<open>disconnect\<close>. The send is not guarded by \<^verbatim>\<open>open\<close>: on a primary connection that is not
  open it runs the error callback, which clears \<^verbatim>\<open>mainConnRef\<close>, and the
  \<^verbatim>\<open>mainConnRef.current.close()\<close> that follows raises a TypeError; the function then
  ends there, in the state that the callback has left. \<open>t_cb\<close> is the clock reading of
  the callback that runs inside (at most one does), \<open>now\<close> the one of
  \<^verbatim>\<open>handleMainDisconnect('local_network')\<close>.
\<close>

definition disconnect :: "nat \<Rightarrow> nat \<Rightarrow> State \<Rightarrow> result" where
  "disconnect t_cb now s =
     (case mainConnRef s of
        None \<Rightarrow> Inr ((handleMainDisconnect ''local_network'' now s)\<lparr>status := IDLE\<rparr>)
      | Some c \<Rightarrow>
          (let s1 = conn_send_sync c (frame T_disconnect) (connHandlers s (conn_id c)) t_cb s
           in case mainConnRef s1 of
                None \<Rightarrow> Inl (TypeError, s1)
              | Some c' \<Rightarrow>
                  Inr ((handleMainDisconnect ''local_network'' now
                          (conn_close_sync c' (connHandlers s1 (conn_id c')) t_cb s1))
                       \<lparr>status := IDLE\<rparr>)))"

text \<open>
  The three senders of the primary conversation. Each reads the clock once per
  \<^verbatim>\<open>Date.now()\<close> in the source, in the order of the parameters.
\<close>

definition send_if_open :: "PeerData \<Rightarrow> State \<Rightarrow> State" where
  "send_if_open f s =
     (case mainConnRef s of
        None \<Rightarrow> s
      | Some c \<Rightarrow> if conn_id c \<in> openConns s then conn_send c f s else s)"

definition sendMessage ::
  "string \<Rightarrow> ReplyInfo option \<Rightarrow> bool option \<Rightarrow> nat \<Rightarrow> nat \<Rightarrow> State \<Rightarrow> State" where
  "sendMessage txt reply vanish idNow tsNow s =
     (let i = toString idNow;
          msg = \<lparr>msg_id = i, msg_text = Some (JStr txt), fileData = None, msg_type = MText,
                 sender = Me, senderName = None, senderPeerId = None, senderProfile = None,
                 timestamp = tsNow, isVanish = vanish, reactions = Some [], isEdited = None,
                 msg_status = Some Sent, replyTo = reply, expiryDuration = None,
                 expiresAt = None\<rparr>
      in send_if_open
           ((frame T_message)\<lparr>payload := Some (JStr txt), dataType := Some MText,
              frame_id := Some i, frame_replyTo := reply, frame_isVanish := vanish\<rparr>)
           (s\<lparr>messages := messages s @ [msg]\<rparr>))"

definition sendImage ::
  "string \<Rightarrow> int option \<Rightarrow> bool option \<Rightarrow> nat \<Rightarrow> nat \<Rightarrow> nat \<Rightarrow> State \<Rightarrow> State" where
  "sendImage base64 expiry vanish idNow expNow tsNow s =
     (let i = toString idNow;
          exp_at = (case expiry of
                      None \<Rightarrow> None
                    | Some d \<Rightarrow> if d \<noteq> 0 then Some (int expNow + d) else None);
          msg = \<lparr>msg_id = i, msg_text = None, fileData = Some (JStr base64), msg_type = MImage,
                 sender = Me, senderName = None, senderPeerId = None, senderProfile = None,
                 timestamp = tsNow, isVanish = vanish, reactions = Some [], isEdited = None,
                 msg_status = Some Sent, replyTo = None, expiryDuration = expiry,
                 expiresAt = exp_at\<rparr>
      in send_if_open
           ((frame T_message)\<lparr>payload := Some (JStr base64), dataType := Some MImage,
              frame_id := Some i, frame_expiryDuration := expiry, frame_isVanish := vanish\<rparr>)
           (s\<lparr>messages := messages s @ [msg]\<rparr>))"

definition sendAudio :: "string \<Rightarrow> bool option \<Rightarrow> nat \<Rightarrow> nat \<Rightarrow> State \<Rightarrow> State" where
  "sendAudio base64 vanish idNow tsNow s =
     (let i = toString idNow;
          msg = \<lparr>msg_id = i, msg_text = None, fileData = Some (JStr base64), msg_type = MAudio,
                 sender = Me, senderName = None, senderPeerId = None, senderProfile = None,
                 timestamp = tsNow, isVanish = vanish, reactions = Some [], isEdited = None,
                 msg_status = Some Sent, replyTo = None, expiryDuration = None,
                 expiresAt = None\<rparr>
      in send_if_open
           ((frame T_message)\<lparr>payload := Some (JStr base64), dataType := Some MAudio,
              frame_id := Some i, frame_isVanish := vanish\<rparr>)
           (s\<lparr>messages := messages s @ [msg]\<rparr>))"

subsection \<open>The callbacks of a connection\<close>

text \<open>\<^verbatim>\<open>conn.on('open')\<close>. The library has set \<^verbatim>\<open>conn.open\<close> before it calls back.\<close>

definition conn_on_open :: "DataConnection \<Rightarrow> bool \<Rightarrow> nat \<Rightarrow> State \<Rightarrow> State" where
  "conn_on_open conn isMain now s =
     (let s1 = (if isMain
                then track P_paired now
                       (s\<lparr>connectionTimeout := None,
                          status := CONNECTED,
                          partnerPeerId := Some (peer conn),
                          isMatchmakerRef := False,
                          failedPeersRef := {}\<rparr>)
                else s)
      in case userProfile s of
           None \<Rightarrow> s1
         | Some up \<Rightarrow> conn_send conn ((frame T_profile)\<lparr>payload := Some (JProfile up)\<rparr>) s1)"

text \<open>
  The \<^verbatim>\<open>message\<close> branch of \<^verbatim>\<open>conn.on('data')\<close>. \<open>msgTimestamp\<close> is the first clock
  reading; \<open>idNow\<close> is the second one, which is taken only when the frame's id is falsy
  (\<^verbatim>\<open>payload.id || Date.now().toString()\<close>: a missing id and the empty string).
\<close>

definition on_data_message ::
  "DataConnection \<Rightarrow> bool \<Rightarrow> PeerData \<Rightarrow> nat \<Rightarrow> nat \<Rightarrow> State \<Rightarrow> State" where
  "on_data_message conn isMain p msgTimestamp idNow s =
     (let sender_profile = (if \<not> isMain then directPeerProfilesRef s (peer conn) else None);
          exp_at = (case frame_expiryDuration p of
                      None \<Rightarrow> None
                    | Some d \<Rightarrow> if d \<noteq> 0 then Some (int msgTimestamp + d) else None);
          newMsg = \<lparr>msg_id = (case frame_id p of
                                None \<Rightarrow> toString idNow
                              | Some i \<Rightarrow> if i \<noteq> [] then i else toString idNow),
                    msg_text = (if dataType p = Some MText then payload p else None),
                    fileData = (if dataType p \<noteq> Some MText then payload p else None),
                    msg_type = (case dataType p of None \<Rightarrow> MText | Some t \<Rightarrow> t),
                    sender = Stranger, senderName = None, senderPeerId = Some (peer conn),
                    senderProfile = sender_profile, timestamp = msgTimestamp,
                    isVanish = frame_isVanish p, reactions = Some [], isEdited = None,
                    msg_status = None, replyTo = frame_replyTo p,
                    expiryDuration = frame_expiryDuration p, expiresAt = exp_at\<rparr>
      in if isMain
         then (let s1 = s\<lparr>messages := messages s @ [newMsg]\<rparr>
               in if truthy_str (frame_id p)
                  then conn_send conn ((frame T_seen)\<lparr>messageId := frame_id p\<rparr>) s1
                  else s1)
         else s\<lparr>incomingDirectMessage := Some \<lparr>dm_peerId = peer conn, dm_message = newMsg\<rparr>\<rparr>)"

text \<open>
  \<^verbatim>\<open>addToRecentPeers\<close>: the stored list without the entries of this peer, the new entry
  in front, cut to 50.
\<close>

definition addToRecentPeers :: "JSValue \<Rightarrow> string \<Rightarrow> nat \<Rightarrow> State \<Rightarrow> State" where
  "addToRecentPeers profile peerId now s =
     (let recents = filter
            (\<lambda>r. if truthy_str (uid_of (rp_profile r)) \<and> truthy_str (uid_of profile)
                 then uid_of (rp_profile r) \<noteq> uid_of profile
                 else rp_peerId r \<noteq> peerId)
            (recent_peers s);
          entry = \<lparr>rp_id = (case uid_of profile of
                              None \<Rightarrow> peerId
                            | Some u \<Rightarrow> if u \<noteq> [] then u else peerId),
                   rp_peerId = peerId, rp_profile = profile, metAt = now\<rparr>
      in s\<lparr>recent_peers := take 50 (entry # recents)\<rparr>)"

text \<open>
  The \<^verbatim>\<open>profile\<close> branch. In the callback the clock is read once, for \<^verbatim>\<open>metAt\<close> in
  \<^verbatim>\<open>addToRecentPeers\<close> (\<open>t1\<close>); the id and the timestamp of the system message are read
  when React runs the updater of \<^verbatim>\<open>setMessages\<close> (\<open>t2\<close>, \<open>t3\<close>). On the primary
  connection a frame without payload sets the partner profile to \<^verbatim>\<open>undefined\<close>; the
  TypeError of \<^verbatim>\<open>addToRecentPeers\<close> is caught there, with nothing stored, and the updater
  raises at \<^verbatim>\<open>profile.username\<close> in the render that follows.
\<close>

definition on_data_profile ::
  "DataConnection \<Rightarrow> bool \<Rightarrow> PeerData \<Rightarrow> nat \<Rightarrow> nat \<Rightarrow> nat \<Rightarrow> State \<Rightarrow> result" where
  "on_data_profile conn isMain p t1 t2 t3 s =
     (if isMain
      then (case payload p of
              None \<Rightarrow> Inl (RenderError, s\<lparr>partnerProfile := None\<rparr>)
            | Some v \<Rightarrow>
                Inr (addToRecentPeers v (peer conn) t1
                  (s\<lparr>partnerProfile := Some v,
                     messages := messages s @
                       [\<lparr>msg_id = ''sys-conn-'' @ toString t2,
                         msg_text = Some (JStr (''Connected with '' @ template_str (username_of v) @ ''.'')),
                         fileData = None, msg_type = MText, sender = System, senderName = None,
                         senderPeerId = None, senderProfile = None, timestamp = t3,
                         isVanish = None, reactions = None, isEdited = None, msg_status = None,
                         replyTo = None, expiryDuration = None, expiresAt = None\<rparr>]\<rparr>)))
      else Inr (s\<lparr>directPeerProfilesRef := (directPeerProfilesRef s)(peer conn := payload p)\<rparr>))"

text \<open>The test of the two friend branches, \<^verbatim>\<open>r.profile.uid && q.uid && r.profile.uid === q.uid\<close>.\<close>

definition same_uid :: "UserProfile \<Rightarrow> UserProfile \<Rightarrow> bool" where
  "same_uid a b = (truthy_str (uid a) \<and> truthy_str (uid b) \<and> uid a = uid b)"

text \<open>
  \<^verbatim>\<open>conn.on('data')\<close>: the dispatch on the frame type. \<open>t1\<close>, \<open>t2\<close>, \<open>t3\<close> are the
  clock readings of the callback, in the order in which a branch takes them. In the
  branch of a \<^verbatim>\<open>disconnect\<close> frame \<^verbatim>\<open>conn.close()\<close> runs the close callback of the same
  registration inside the call, before \<^verbatim>\<open>handleMainDisconnect('explicit')\<close>.
\<close>

definition conn_on_data ::
  "DataConnection \<Rightarrow> bool \<Rightarrow> PeerData \<Rightarrow> nat \<Rightarrow> nat \<Rightarrow> nat \<Rightarrow> State \<Rightarrow> result" where
  "conn_on_data conn isMain p t1 t2 t3 s =
     (case ptype p of
        T_message \<Rightarrow> Inr (on_data_message conn isMain p t1 t2 s)
      | T_profile \<Rightarrow> on_data_profile conn isMain p t1 t2 t3 s
      | T_typing \<Rightarrow>
          Inr (if isMain then s\<lparr>partnerTyping := payload p\<rparr>
               else s\<lparr>incomingDirectStatus :=
                        Some \<lparr>ds_peerId = peer conn, ds_type = K_typing, ds_value = payload p\<rparr>\<rparr>)
      | T_recording \<Rightarrow>
          Inr (if isMain then s\<lparr>partnerRecording := payload p\<rparr>
               else s\<lparr>incomingDirectStatus :=
                        Some \<lparr>ds_peerId = peer conn, ds_type = K_recording, ds_value = payload p\<rparr>\<rparr>)
      | T_disconnect \<Rightarrow>
          Inr (if isMain
               then handleMainDisconnect ''explicit'' t2 (conn_close_sync conn (Some isMain) t1 s)
               else s)
      | T_vanish_mode \<Rightarrow>
          Inr (if isMain
               then s\<lparr>remoteVanishMode := payload p,
                      notification := Some (if truthy (payload p)
                                            then ''Stranger turned on Vanish Mode''
                                            else ''Stranger turned off Vanish Mode'')\<rparr>
               else s)
      | T_reaction \<Rightarrow>
          Inr (if isMain
               then s\<lparr>messages := map
                        (\<lambda>m. if Some (msg_id m) = messageId p
                             then m\<lparr>reactions := Some
                                    ((case reactions m of None \<Rightarrow> [] | Some rs \<Rightarrow> rs) @
                                     [\<lparr>emoji = payload p, r_sender = Stranger\<rparr>])\<rparr>
                             else m)
                        (messages s)\<rparr>
               else s\<lparr>incomingReaction :=
                        Some \<lparr>re_peerId = peer conn, re_messageId = messageId p,
                              re_emoji = payload p, re_sender = Stranger\<rparr>\<rparr>)
      | T_edit_message \<Rightarrow>
          Inr (if isMain
               then s\<lparr>messages := map
                        (\<lambda>m. if Some (msg_id m) = messageId p
                             then m\<lparr>msg_text := payload p, isEdited := Some True\<rparr> else m)
                        (messages s)\<rparr>
               else s)
      | T_friend_request \<Rightarrow>
          Inr (case payload p of
                 Some (JProfile q) \<Rightarrow>
                   if username q \<noteq> []
                   then (if list_ex (\<lambda>r. same_uid (rq_profile r) q \<or> rq_peerId r = peer conn)
                               (friendRequests s)
                         then s
                         else s\<lparr>friendRequests := friendRequests s @
                                  [\<lparr>rq_peerId = peer conn, rq_profile = q\<rparr>]\<rparr>)
                   else s
               | _ \<Rightarrow> s)
      | T_friend_accept \<Rightarrow>
          Inr (case payload p of
                 Some (JProfile q) \<Rightarrow>
                   if username q \<noteq> []
                   then (if list_ex (\<lambda>f. same_uid (fr_profile f) q \<or> fr_id f = peer conn)
                               (friends s)
                         then s
                         else s\<lparr>friends := friends s @
                                  [\<lparr>fr_id = peer conn, fr_profile = q, addedAt = t1,
                                    lastSeen = Some t2\<rparr>]\<rparr>)
                        \<lparr>notification := Some (username q @ '' accepted your friend request'')\<rparr>
                   else s
               | _ \<Rightarrow> s)
      | T_seen \<Rightarrow>
          Inr (if isMain
               then s\<lparr>messages := map
                        (\<lambda>m. if Some (msg_id m) = messageId p
                             then m\<lparr>msg_status := Some Seen\<rparr> else m)
                        (messages s)\<rparr>
               else s)
      | T_profile_update \<Rightarrow> Inr s)"

text \<open>\<^verbatim>\<open>peer.on('error')\<close>, on the error's \<^verbatim>\<open>type\<close>.\<close>

definition peer_on_error :: "string \<Rightarrow> State \<Rightarrow> State" where
  "peer_on_error err_type s =
     (if err_type = ''peer-unavailable'' \<and> isMatchmakerRef s
      then (let s1 = s\<lparr>isMatchmakerRef := False\<rparr>
            in if statusRef s1 = SEARCHING then s1\<lparr>mainConnRef := None\<rparr> else s1)
      else s)"

subsection \<open>The matchmaker\<close>

text \<open>
  The filter of \<^verbatim>\<open>attemptMatch\<close>: presence records with status waiting, other than this
  peer and outside the set of recently failed peers.
\<close>

definition waiters :: "State \<Rightarrow> PresenceState list" where
  "waiters s =
     filter (\<lambda>u. ps_status u = P_waiting \<and> Some (ps_peerId u) \<noteq> myPeerId s
                  \<and> ps_peerId u \<notin> failedPeersRef s)
            (onlineUsers s)"

text \<open>
  \<^verbatim>\<open>ws[Math.floor(Math.random() * ws.length)]\<close>. The draw and the product are the
  runtime's, in floating point: \<open>x\<close> is the number that the runtime has computed for
  \<^verbatim>\<open>Math.random() * ws.length\<close>, and \<^verbatim>\<open>Math.floor\<close> of it is exact. A read out of range
  gives \<^verbatim>\<open>undefined\<close>.
\<close>

definition pick :: "real \<Rightarrow> 'a list \<Rightarrow> 'a option" where
  "pick x ws =
     (let i = \<lfloor>x\<rfloor>
      in if 0 \<le> i \<and> i < int (length ws) then Some (ws ! nat i) else None)"

text \<open>
  \<^verbatim>\<open>attemptMatch\<close>: the guard, the choice of a target, the in-flight flag, and the
  scheduling of the jitter callback for that target.
\<close>

definition attemptMatch :: "real \<Rightarrow> State \<Rightarrow> State" where
  "attemptMatch x s =
     (if \<not> truthy_str (myPeerId s) \<or> isMatchmakerRef s \<or> mainConnRef s \<noteq> None
          \<or> statusRef s \<noteq> SEARCHING
      then s
      else if length (waiters s) > 0
      then s\<lparr>isMatchmakerRef := True,
             pendingJitter := pendingJitter s @ [pick x (waiters s)]\<rparr>
      else s)"

text \<open>
  What \<^verbatim>\<open>peerRef.current.connect\<close> does is the library's: it returns a new connection
  (here its identity; its \<^verbatim>\<open>peer\<close> is the dialed id), returns nothing, or throws.
\<close>

datatype ConnectOutcome = Returned nat | ReturnedNothing | Threw

text \<open>
  The jitter callback of \<^verbatim>\<open>attemptMatch\<close>, for the target it was scheduled with. After
  the guard everything is inside \<^verbatim>\<open>try\<close>: an undefined target, a missing peer object,
  a throwing or empty \<^verbatim>\<open>connect\<close> all end in clearing the in-flight flag. Arming the
  timer replaces the one that \<^verbatim>\<open>connectionTimeoutRef\<close> held.
\<close>

definition jitter_callback :: "PresenceState option \<Rightarrow> ConnectOutcome \<Rightarrow> State \<Rightarrow> State" where
  "jitter_callback target outcome s =
     (if statusRef s \<noteq> SEARCHING \<or> mainConnRef s \<noteq> None
      then s\<lparr>isMatchmakerRef := False\<rparr>
      else case target of
             None \<Rightarrow> s\<lparr>isMatchmakerRef := False\<rparr>
           | Some t \<Rightarrow>
               if \<not> peerRef s then s\<lparr>isMatchmakerRef := False\<rparr>
               else
                 (let s0 = s\<lparr>effects := effects s @ [Dial (ps_peerId t) TypeRandom]\<rparr>
                  in case outcome of
                       Threw \<Rightarrow> s0\<lparr>isMatchmakerRef := False\<rparr>
                     | ReturnedNothing \<Rightarrow> s0\<lparr>isMatchmakerRef := False\<rparr>
                     | Returned n \<Rightarrow>
                         (let conn = \<lparr>conn_id = n, peer = ps_peerId t\<rparr>
                          in (setupConnection conn \<lparr>mtype = TypeRandom\<rparr> s0)
                               \<lparr>connectionTimeout := Some (conn, ps_peerId t)\<rparr>)))"

text \<open>
  The callback of the 5 s timer, for the connection and the peer id of its closure. If
  the connection is open, its close callback runs inside \<^verbatim>\<open>conn.close()\<close>; under the
  guard of this callback it can only clear the in-flight flag and \<^verbatim>\<open>mainConnRef\<close>, which
  the next lines do in any case (lemma \<open>timeout_close_callback_absorbed\<close>).
\<close>

definition timeout_callback :: "DataConnection \<Rightarrow> string \<Rightarrow> State \<Rightarrow> State" where
  "timeout_callback conn target s =
     (if statusRef s = SEARCHING \<and> \<not> main_open s
      then (conn_close conn s)
             \<lparr>mainConnRef := None,
              failedPeersRef := insert target (failedPeersRef s),
              isMatchmakerRef := False\<rparr>
      else s)"

text \<open>
  \<^verbatim>\<open>callPeer\<close>. Without a connection from the library, \<^verbatim>\<open>setupConnection\<close> raises at
  \<^verbatim>\<open>conn.peer\<close>; an exception of \<^verbatim>\<open>connect\<close> is not caught here either.
\<close>

definition callPeer :: "string \<Rightarrow> ConnectOutcome \<Rightarrow> State \<Rightarrow> result" where
  "callPeer peerId outcome s =
     (if (case directConnsRef s peerId of None \<Rightarrow> False | Some c \<Rightarrow> conn_id c \<in> openConns s)
      then Inr s
      else if \<not> peerRef s then Inr s
      else (let s0 = s\<lparr>effects := effects s @ [Dial peerId TypeDirect]\<rparr>
            in case outcome of
                 Returned n \<Rightarrow>
                   Inr (setupConnection \<lparr>conn_id = n, peer = peerId\<rparr> \<lparr>mtype = TypeDirect\<rparr> s0)
               | ReturnedNothing \<Rightarrow> Inl (TypeError, s0)
               | Threw \<Rightarrow> Inl (TransportError, s0)))"

subsection \<open>The environment: renders, timers and transport events\<close>

text \<open>The effect that copies the rendered status into \<^verbatim>\<open>statusRef\<close>.\<close>

definition render :: "State \<Rightarrow> State" where
  "render s = s\<lparr>statusRef := status s\<rparr>"

text \<open>
  The hook before the peer has opened, for a user profile: the peer object exists, no
  peer id is known, the lobby channel does not exist yet.
\<close>

definition init_state :: "UserProfile \<Rightarrow> State" where
  "init_state up =
     \<lparr>messages = [], status = IDLE, partnerTyping = Some (JBool False),
      partnerRecording = Some (JBool False), partnerProfile = None, remoteVanishMode = None,
      partnerPeerId = None, onlineUsers = [], myPeerId = None, error = None,
      disconnectReason = None, incomingDirectMessage = None, incomingReaction = None,
      incomingDirectStatus = None, friends = [], friendRequests = [],
      activeDirectConnections = {}, notification = None, userProfile = Some up,
      peerRef = True, mainConnRef = None, directConnsRef = Map.empty,
      directPeerProfilesRef = Map.empty, channelRef = False, isMatchmakerRef = False,
      statusRef = IDLE, failedPeersRef = {}, openConns = {}, connHandlers = Map.empty,
      connectionTimeout = None, pendingJitter = [], recent_peers = [], effects = []\<rparr>"

text \<open>
  What can happen to the hook. \<open>PeerOpen\<close> is the open callback of the peer with the
  render that follows it and the lobby effect of that render, which creates the channel
  as soon as the peer id is known; \<open>LobbyJoined\<close> is the callback of the subscription,
  which publishes idle. The events of a connection carry the connection; its callbacks
  run only if \<^verbatim>\<open>setupConnection\<close> registered them, with the \<^verbatim>\<open>isMain\<close> of that
  registration. A timer event runs the pending callback, if there is one; of the
  pending jitter callbacks, which have random delays, any one can be the next to run.
  After a call that raises, the hook is in the state that the call has left.
\<close>

datatype event =
    Render
  | PeerOpen string
  | LobbyJoined nat
  | PresenceSync "PresenceState list"
  | PollTick real
  | JitterFires nat ConnectOutcome
  | TimeoutFires
  | PeerError string
  | Inbound DataConnection "ConnectionMetadata option"
  | ConnOpen DataConnection nat
  | ConnData DataConnection PeerData nat nat nat
  | ConnClose DataConnection nat
  | ConnError DataConnection nat
  | UserConnect nat
  | UserDisconnect nat nat
  | UserSendMessage string nat nat
  | UserCallPeer string ConnectOutcome

definition state_after :: "result \<Rightarrow> State" where
  "state_after r = (case r of Inl (e, s') \<Rightarrow> s' | Inr s' \<Rightarrow> s')"

fun step :: "event \<Rightarrow> State \<Rightarrow> State" where
  "step Render s = render s"
| "step (PeerOpen i) s =
     s\<lparr>myPeerId := Some i, channelRef := (userProfile s \<noteq> None \<and> i \<noteq> [])\<rparr>"
| "step (LobbyJoined now) s = track P_idle now s"
| "step (PresenceSync us) s = s\<lparr>onlineUsers := us\<rparr>"
| "step (PollTick x) s = attemptMatch x s"
| "step (JitterFires k outcome) s =
     (if k < length (pendingJitter s)
      then jitter_callback (pendingJitter s ! k) outcome
             (s\<lparr>pendingJitter := take k (pendingJitter s) @ drop (Suc k) (pendingJitter s)\<rparr>)
      else s)"
| "step TimeoutFires s =
     (case connectionTimeout s of
        None \<Rightarrow> s
      | Some (c, t) \<Rightarrow> timeout_callback c t (s\<lparr>connectionTimeout := None\<rparr>))"
| "step (PeerError ty) s = peer_on_error ty s"
| "step (Inbound c meta) s = state_after (peer_on_connection c meta s)"
| "step (ConnOpen c now) s =
     (case connHandlers s (conn_id c) of
        None \<Rightarrow> s
      | Some isMain \<Rightarrow> conn_on_open c isMain now (s\<lparr>openConns := insert (conn_id c) (openConns s)\<rparr>))"
| "step (ConnData c p t1 t2 t3) s =
     (case connHandlers s (conn_id c) of
        None \<Rightarrow> s
      | Some isMain \<Rightarrow> state_after (conn_on_data c isMain p t1 t2 t3 s))"
| "step (ConnClose c now) s =
     (case connHandlers s (conn_id c) of
        None \<Rightarrow> s
      | Some isMain \<Rightarrow> conn_on_close c isMain now (s\<lparr>openConns := openConns s - {conn_id c}\<rparr>))"
| "step (ConnError c now) s =
     (case connHandlers s (conn_id c) of
        None \<Rightarrow> s
      | Some isMain \<Rightarrow> conn_on_error c isMain now s)"
| "step (UserConnect now) s = connect now s"
| "step (UserDisconnect t_cb now) s = state_after (disconnect t_cb now s)"
| "step (UserSendMessage txt idNow tsNow) s = sendMessage txt None None idNow tsNow s"
| "step (UserCallPeer peerId outcome) s = state_after (callPeer peerId outcome s)"

text \<open>A run of the hook: the events in order, from the left.\<close>

definition run :: "event list \<Rightarrow> State \<Rightarrow> State" where
  "run es s = fold step es s"

text \<open>The dials of the matchmaker among the effects: those with primary intent.\<close>

fun is_primary_dial :: "effect \<Rightarrow> bool" where
  "is_primary_dial (Dial p TypeRandom) = True"
| "is_primary_dial _ = False"

subsection \<open>Direct conversations (SocialHub in src/src/components/Header.tsx)\<close>

text \<open>
  The effect of \<^verbatim>\<open>SocialHub\<close> on \<^verbatim>\<open>incomingDirectMessage\<close>, as far as the stored history
  of the conversation goes: a Message whose id is already in the history is dropped.
\<close>

definition direct_history_receive :: "Message \<Rightarrow> Message list \<Rightarrow> Message list" where
  "direct_history_receive message history =
     (if \<not> list_ex (\<lambda>m. msg_id m = msg_id message) history then history @ [message]
      else history)"

section \<open>Example runs\<close>

text \<open>
  Concrete states, each reached by a run from the initial state, on which the theorems
  below are instantiated.
\<close>

definition ex_profile :: UserProfile where
  "ex_profile = \<lparr>uid = None, username = ''ann'', age = ''30'', gender = ''f'',
     interests = [], location = ''x''\<rparr>"

text \<open>The peer has opened as \<open>me\<close>, the lobby is joined, the user has pressed connect.\<close>

definition ex_searching :: State where
  "ex_searching =
     run [PeerOpen ''me'', LobbyJoined 0, UserConnect 1, Render] (init_state ex_profile)"

definition ex_conn_b :: DataConnection where
  "ex_conn_b = \<lparr>conn_id = 1, peer = ''b''\<rparr>"

definition ex_conn_c :: DataConnection where
  "ex_conn_c = \<lparr>conn_id = 2, peer = ''c''\<rparr>"

text \<open>Peer \<open>b\<close> has dialed in as primary, and the connection has opened.\<close>

definition ex_connected :: State where
  "ex_connected =
     run [Inbound ex_conn_b (Some \<lparr>mtype = TypeRandom\<rparr>), ConnOpen ex_conn_b 2, Render]
       ex_searching"

definition ex_waiter_b :: PresenceState where
  "ex_waiter_b = \<lparr>ps_peerId = ''b'', ps_status = P_waiting, ps_timestamp = 0,
     ps_profile = None\<rparr>"

text \<open>The lobby shows \<open>b\<close> waiting.\<close>

definition ex_lobby :: State where
  "ex_lobby = run [PresenceSync [ex_waiter_b]] ex_searching"

text \<open>The matchmaker has selected \<open>b\<close> and dialed; the timer of the dial is armed.\<close>

definition ex_dialing :: State where
  "ex_dialing = run [PollTick 0, JitterFires 0 (Returned 1)] ex_lobby"

text \<open>A dial to \<open>b\<close> that never opened: its timer has fired.\<close>

definition ex_cooldown :: State where
  "ex_cooldown = run [PollTick 0, JitterFires 0 (Returned 1), TimeoutFires] ex_lobby"

text \<open>
  A dial to \<open>b\<close> fails early with a connection error, and \<open>b\<close> shows as paired
  for a while, so that the polls find nobody and the timer of the failed dial stays
  armed. Then \<open>b\<close> waits again and is selected, and the old timer fires while the
  jitter callback of the new selection is pending.
\<close>

definition ex_race :: State where
  "ex_race =
     run [PollTick 0, JitterFires 0 (Returned 1),
          ConnError ex_conn_b 3,
          PresenceSync [ex_waiter_b\<lparr>ps_status := P_paired\<rparr>], PollTick 0,
          PresenceSync [ex_waiter_b], PollTick 0,
          TimeoutFires] ex_lobby"

text \<open>Message frames: with the empty string as id, without id, and with the id \<open>5\<close>.\<close>

definition ex_frame_empty_id :: PeerData where
  "ex_frame_empty_id =
     (frame T_message)\<lparr>payload := Some (JStr ''hi''), dataType := Some MText,
        frame_id := Some []\<rparr>"

definition ex_frame_no_id :: PeerData where
  "ex_frame_no_id = (frame T_message)\<lparr>payload := Some (JStr ''hi''), dataType := Some MText\<rparr>"

definition ex_frame_id5 :: PeerData where
  "ex_frame_id5 =
     (frame T_message)\<lparr>payload := Some (JStr ''hi''), dataType := Some MText,
        frame_id := Some ''5''\<rparr>"

text \<open>
  The session with \<open>b\<close> in use: \<open>b\<close>'s profile has arrived, the user has sent a
  line, and \<open>b\<close> has answered.
\<close>

definition ex_frame_profile :: PeerData where
  "ex_frame_profile = (frame T_profile)\<lparr>payload := Some (JProfile ex_profile)\<rparr>"

definition ex_chatting :: State where
  "ex_chatting =
     run [ConnData ex_conn_b ex_frame_profile 3 3 3, UserSendMessage ''hello'' 4 4,
          ConnData ex_conn_b ex_frame_id5 5 5 5] ex_connected"

section \<open>Evaluation of the example runs\<close>

lemmas handler_defs = Let_def init_state_def connect_def track_def truthy_str_def render_def
  peer_on_connection_def setupConnection_def conn_close_def conn_send_def conn_on_open_def
  state_after_def conn_close_sync_def conn_send_sync_def frame_def attemptMatch_def waiters_def pick_def jitter_callback_def
  timeout_callback_def main_open_def conn_on_error_def conn_on_close_def
  handleMainDisconnect_def disconnect_def peer_on_error_def callPeer_def send_if_open_def
  sendMessage_def sendImage_def sendAudio_def on_data_message_def

lemmas ex_defs = run_def ex_profile_def ex_searching_def ex_conn_b_def ex_conn_c_def
  ex_connected_def ex_waiter_b_def ex_lobby_def ex_dialing_def ex_cooldown_def ex_race_def
  ex_frame_empty_id_def ex_frame_no_id_def ex_frame_id5_def ex_frame_profile_def
  ex_chatting_def

lemma ex_searching_fields:
  "statusRef ex_searching = SEARCHING" "status ex_searching = SEARCHING"
  "mainConnRef ex_searching = None" "openConns ex_searching = {}"
  by (simp_all add: ex_defs handler_defs)

lemma ex_connected_fields:
  "statusRef ex_connected = CONNECTED" "status ex_connected = CONNECTED"
  "mainConnRef ex_connected = Some ex_conn_b" "openConns ex_connected = {1}"
  "messages ex_connected = []" "channelRef ex_connected"
  by (simp_all add: ex_defs handler_defs)

lemma toString_nonempty: "toString n \<noteq> []"
  by (subst toString.simps) simp

lemma toString_digits: "toString 5 = ''5''" "toString 8 = ''8''"
  by code_simp+

section \<open>Acceptance of inbound primary connections\<close>

text \<open>
  Claim C1. An inbound connection whose metadata has type \<^verbatim>\<open>random\<close> is accepted, that
  is installed in \<^verbatim>\<open>mainConnRef\<close> with its callbacks registered, exactly when the
  status that the callbacks see (\<^verbatim>\<open>statusRef.current\<close>) is SEARCHING or WAITING and
  \<^verbatim>\<open>mainConnRef\<close> is empty. In every other case the connection is closed at once, and
  the state differs from the one before only in the record of that close: status,
  primary connection, partner profile and partner peer id, messages and all the other
  fields are the same.
\<close>

theorem primary_inbound_accept_or_reject:
  "((statusRef s = SEARCHING \<or> statusRef s = WAITING) \<and> mainConnRef s = None \<longrightarrow>
      peer_on_connection conn (Some \<lparr>mtype = TypeRandom\<rparr>) s =
        Inr (s\<lparr>mainConnRef := Some conn,
               connHandlers := (connHandlers s)(conn_id conn \<mapsto> True)\<rparr>))
   \<and> (\<not> ((statusRef s = SEARCHING \<or> statusRef s = WAITING) \<and> mainConnRef s = None) \<longrightarrow>
      peer_on_connection conn (Some \<lparr>mtype = TypeRandom\<rparr>) s =
        Inr (s\<lparr>openConns := openConns s - {conn_id conn},
               effects := effects s @ [Close conn]\<rparr>))"
  by (auto simp: peer_on_connection_def setupConnection_def conn_close_def)

text \<open>
  Both cases occur: \<open>b\<close> dials in while the hook is searching and is installed; \<open>c\<close>
  dials in while the session with \<open>b\<close> is connected and is closed (Scenario C).
\<close>

theorem primary_inbound_accept_or_reject_witness:
  "peer_on_connection ex_conn_b (Some \<lparr>mtype = TypeRandom\<rparr>) ex_searching =
     Inr (ex_searching\<lparr>mainConnRef := Some ex_conn_b,
            connHandlers := (connHandlers ex_searching)(conn_id ex_conn_b \<mapsto> True)\<rparr>)
   \<and> peer_on_connection ex_conn_c (Some \<lparr>mtype = TypeRandom\<rparr>) ex_connected =
     Inr (ex_connected\<lparr>openConns := openConns ex_connected - {conn_id ex_conn_c},
            effects := effects ex_connected @ [Close ex_conn_c]\<rparr>)"
  using primary_inbound_accept_or_reject [of ex_searching ex_conn_b]
    primary_inbound_accept_or_reject [of ex_connected ex_conn_c]
  by (simp add: ex_searching_fields ex_connected_fields)

section \<open>The local hangup\<close>

lemma ex_chatting_fields:
  "status ex_chatting = CONNECTED" "statusRef ex_chatting = CONNECTED"
  "mainConnRef ex_chatting = Some ex_conn_b" "conn_id ex_conn_b \<in> openConns ex_chatting"
  "connHandlers ex_chatting (conn_id ex_conn_b) = Some True" "channelRef ex_chatting"
  "length (messages ex_chatting) = 3" "partnerProfile ex_chatting = Some (JProfile ex_profile)"
  "partnerPeerId ex_chatting = Some ''b''"
  by (simp_all add: ex_defs handler_defs conn_on_data_def on_data_profile_def
      addToRecentPeers_def)

text \<open>
  Claim C2, as stated, fails: \<^verbatim>\<open>disconnect\<close> ends with \<^verbatim>\<open>setStatus(ChatMode.IDLE)\<close>,
  after \<^verbatim>\<open>handleMainDisconnect\<close> has set DISCONNECTED. In the example of a connected
  session, with an open primary connection, the status after \<^verbatim>\<open>disconnect\<close> is IDLE.
\<close>

theorem disconnect_status_counterexample:
  "status ex_chatting = CONNECTED \<and> main_open ex_chatting
   \<and> status (state_after (disconnect 6 7 ex_chatting)) = IDLE"
  by (simp add: ex_chatting_fields main_open_def state_after_def disconnect_def
      conn_send_sync_def conn_close_sync_def conn_send_def conn_close_def conn_on_close_def
      handleMainDisconnect_def track_def Let_def)

text \<open>
  Claim C2, amended. \<^verbatim>\<open>disconnect\<close> on a connected session, that is with status
  CONNECTED and an open primary connection that was set up as such, returns with the
  status IDLE, the disconnect reason \<^verbatim>\<open>local_network\<close>, an empty message list, no
  partner profile, partner peer id or remote vanish flag, and no primary connection. It
  sends a \<^verbatim>\<open>disconnect\<close> frame on the primary connection and closes it. Then, if the
  lobby channel exists, it publishes the presence status idle: once from the close
  callback, which runs inside the close when the callbacks still see CONNECTED, and
  once from \<^verbatim>\<open>disconnect\<close> itself.
\<close>

theorem disconnect_ends_idle:
  assumes "status s = CONNECTED" and "mainConnRef s = Some c"
    and "conn_id c \<in> openConns s" and "connHandlers s (conn_id c) = Some True"
  shows "\<exists>s'. disconnect t_cb now s = Inr s'
           \<and> status s' = IDLE
           \<and> disconnectReason s' = Some ''local_network''
           \<and> messages s' = []
           \<and> partnerProfile s' = None
           \<and> partnerPeerId s' = None
           \<and> remoteVanishMode s' = None
           \<and> mainConnRef s' = None
           \<and> effects s' =
               effects s @ [Send c (frame T_disconnect), Close c]
               @ (if channelRef s
                  then (if statusRef s = CONNECTED then [Track P_idle t_cb] else [])
                       @ [Track P_idle now]
                  else [])"
  using assms
  by (simp add: disconnect_def conn_send_sync_def conn_close_sync_def conn_send_def
      conn_close_def conn_on_close_def handleMainDisconnect_def track_def Let_def)

text \<open>
  On the session with \<open>b\<close> in use, with three messages and \<open>b\<close>'s profile: the
  session ends idle and empty, after a \<^verbatim>\<open>disconnect\<close> frame to \<open>b\<close>, the close of the
  connection, and two publications of idle.
\<close>

theorem disconnect_ends_idle_witness:
  "status ex_chatting = CONNECTED \<and> mainConnRef ex_chatting = Some ex_conn_b
   \<and> conn_id ex_conn_b \<in> openConns ex_chatting
   \<and> connHandlers ex_chatting (conn_id ex_conn_b) = Some True
   \<and> length (messages ex_chatting) = 3
   \<and> partnerProfile ex_chatting = Some (JProfile ex_profile)
   \<and> partnerPeerId ex_chatting = Some ''b''
   \<and> (\<exists>s'. disconnect 6 7 ex_chatting = Inr s'
          \<and> status s' = IDLE
          \<and> disconnectReason s' = Some ''local_network''
          \<and> messages s' = []
          \<and> partnerProfile s' = None
          \<and> partnerPeerId s' = None
          \<and> remoteVanishMode s' = None
          \<and> mainConnRef s' = None
          \<and> effects s' =
              effects ex_chatting
              @ [Send ex_conn_b (frame T_disconnect), Close ex_conn_b,
                 Track P_idle 6, Track P_idle 7])"
  using disconnect_ends_idle [of ex_chatting ex_conn_b 6 7]
  by (simp add: ex_chatting_fields)

text \<open>
  The case that the amended claim leaves out: while a dial is in flight the primary
  connection exists and is not open. The send runs the error callback, which clears
  the reference, and the close raises; status and messages are as before.
\<close>

lemma disconnect_while_dialing_raises:
  "disconnect 6 7 ex_dialing
     = Inl (TypeError, ex_dialing\<lparr>isMatchmakerRef := False, mainConnRef := None\<rparr>)
   \<and> status ex_dialing = SEARCHING"
  by (simp add: ex_defs handler_defs disconnect_def conn_send_sync_def)

section \<open>Inbound message frames\<close>

text \<open>
  Claim C4, as stated, fails for a frame whose id is the empty string: the id is
  read through \<^verbatim>\<open>payload.id || Date.now().toString()\<close> and \<^verbatim>\<open>if (payload.id)\<close>, and the
  empty string is falsy. The Message gets the clock reading as id, and no \<^verbatim>\<open>seen\<close>
  frame is sent.
\<close>

theorem empty_id_counterexample:
  "ptype ex_frame_empty_id = T_message \<and> frame_id ex_frame_empty_id = Some []
   \<and> conn_on_data ex_conn_b True ex_frame_empty_id 7 8 9 ex_connected =
       Inr (on_data_message ex_conn_b True ex_frame_empty_id 7 8 ex_connected)
   \<and> map msg_id (messages (on_data_message ex_conn_b True ex_frame_empty_id 7 8 ex_connected))
       = [''8'']
   \<and> effects (on_data_message ex_conn_b True ex_frame_empty_id 7 8 ex_connected)
       = effects ex_connected"
  by (simp add: ex_frame_empty_id_def conn_on_data_def on_data_message_def frame_def
      truthy_str_def ex_connected_fields toString_digits Let_def)

text \<open>
  Claim C4, amended. For every \<^verbatim>\<open>message\<close> frame with a non-empty id that arrives on a
  primary connection, the callback appends one Message with exactly that id to the
  conversation and sends one \<^verbatim>\<open>seen\<close> frame with that id as \<^verbatim>\<open>messageId\<close> on the same
  connection.
\<close>

theorem message_id_roundtrip_and_seen:
  assumes "ptype p = T_message" and "frame_id p = Some i" and "i \<noteq> []"
  shows "\<exists>s' m. conn_on_data conn True p t1 t2 t3 s = Inr s'
           \<and> messages s' = messages s @ [m] \<and> msg_id m = i
           \<and> effects s' = effects s @ [Send conn ((frame T_seen)\<lparr>messageId := Some i\<rparr>)]"
  using assms
  by (simp add: conn_on_data_def on_data_message_def truthy_str_def conn_send_def Let_def)

theorem message_id_roundtrip_and_seen_witness:
  "\<exists>s' m. conn_on_data ex_conn_b True ex_frame_id5 7 8 9 ex_connected = Inr s'
           \<and> messages s' = messages ex_connected @ [m] \<and> msg_id m = ''5''
           \<and> effects s' = effects ex_connected
                @ [Send ex_conn_b ((frame T_seen)\<lparr>messageId := Some ''5''\<rparr>)]"
  by (rule message_id_roundtrip_and_seen) (simp_all add: ex_frame_id5_def frame_def)

text \<open>
  The frames that the hook itself sends for a Message always carry a non-empty id, the
  id of the sender's Message: between two peers that run this hook the id makes the
  round trip.
\<close>

lemma sent_frame_carries_message_id:
  assumes "main_open s"
  shows "\<exists>c f. effects (sendMessage txt r v idNow tsNow s) = effects s @ [Send c f]
           \<and> ptype f = T_message \<and> frame_id f = Some (toString idNow)
           \<and> toString idNow \<noteq> []"
  using assms
  by (auto simp: sendMessage_def send_if_open_def conn_send_def main_open_def frame_def Let_def
      toString_nonempty split: option.splits)

text \<open>
  Claim C10. A \<^verbatim>\<open>message\<close> frame without id that arrives on a primary connection is
  delivered all the same: one Message from the stranger is appended, stamped with the
  first clock reading of the callback, and its id is the decimal form of the clock
  reading taken for the id. Nothing is sent back: the effects are those of before.
\<close>

theorem message_without_id_delivered_unacknowledged:
  assumes "ptype p = T_message" and "frame_id p = None"
  shows "\<exists>s' m. conn_on_data conn True p t1 t2 t3 s = Inr s'
           \<and> messages s' = messages s @ [m] \<and> msg_id m = toString t2
           \<and> sender m = Stranger \<and> timestamp m = t1
           \<and> effects s' = effects s"
  using assms
  by (simp add: conn_on_data_def on_data_message_def truthy_str_def conn_send_def Let_def)

theorem message_without_id_delivered_unacknowledged_witness:
  "\<exists>s' m. conn_on_data ex_conn_b True ex_frame_no_id 7 8 9 ex_connected = Inr s'
           \<and> messages s' = messages ex_connected @ [m] \<and> msg_id m = toString 8
           \<and> sender m = Stranger \<and> timestamp m = 7
           \<and> effects s' = effects ex_connected"
  by (rule message_without_id_delivered_unacknowledged)
    (simp_all add: ex_frame_no_id_def frame_def)

section \<open>Message ids within a conversation\<close>

text \<open>
  The direct conversations keep their ids unique on delivery: \<^verbatim>\<open>SocialHub\<close> drops an
  inbound Message whose id the history already holds.
\<close>

lemma direct_history_receive_distinct:
  "distinct (map msg_id history) \<Longrightarrow>
     distinct (map msg_id (direct_history_receive message history))"
  by (auto simp: direct_history_receive_def list_ex_iff)

lemma direct_history_receive_rejects:
  "msg_id message \<in> msg_id ` set history \<Longrightarrow>
     direct_history_receive message history = history"
  by (auto simp: direct_history_receive_def list_ex_iff)

text \<open>
  Claim C7: within one conversation Message ids are unique, and an operation that would
  bring in a Message whose id is already there (a local send, the delivery of an inbound
  \<^verbatim>\<open>message\<close> frame) rejects it. The primary conversation breaks this: neither
  \<^verbatim>\<open>sendMessage\<close> nor the \<^verbatim>\<open>message\<close> branch of the data callback looks at the ids that
  the conversation holds, and the ids of local sends are bare clock readings. In the
  connected example, after a local send at clock reading 5, a frame with id \<open>5\<close> from
  the partner, or a second local send within the same millisecond, puts a second
  Message with id \<open>5\<close> into the conversation.
\<close>

theorem primary_conversation_duplicate_id:
  "map msg_id (messages (sendMessage ''a'' None None 5 5 ex_connected)) = [''5'']
   \<and> map msg_id (messages (on_data_message ex_conn_b True ex_frame_id5 6 6
        (sendMessage ''a'' None None 5 5 ex_connected))) = [''5'', ''5'']
   \<and> map msg_id (messages (sendMessage ''b'' None None 5 5
        (sendMessage ''a'' None None 5 5 ex_connected))) = [''5'', ''5'']"
  by (simp add: sendMessage_def send_if_open_def conn_send_def on_data_message_def
      ex_frame_id5_def frame_def truthy_str_def ex_connected_fields toString_digits Let_def
      split: option.splits)

text \<open>
  The same in general, for the primary conversation: a send or a delivery whose id is
  already there appends all the same, and leaves what was there as it was.
\<close>

lemma messages_sendMessage:
  "\<exists>m. messages (sendMessage txt r v idNow tsNow s) = messages s @ [m]
        \<and> msg_id m = toString idNow"
  by (simp add: sendMessage_def send_if_open_def conn_send_def Let_def split: option.splits)

lemma messages_sendImage:
  "\<exists>m. messages (sendImage b e v idNow expNow tsNow s) = messages s @ [m]
        \<and> msg_id m = toString idNow"
  by (simp add: sendImage_def send_if_open_def conn_send_def Let_def split: option.splits)

lemma messages_sendAudio:
  "\<exists>m. messages (sendAudio b v idNow tsNow s) = messages s @ [m]
        \<and> msg_id m = toString idNow"
  by (simp add: sendAudio_def send_if_open_def conn_send_def Let_def split: option.splits)

lemma messages_on_data_message:
  "\<exists>m. messages (on_data_message conn True p t1 t2 s) = messages s @ [m]
        \<and> msg_id m = (case frame_id p of None \<Rightarrow> toString t2
                       | Some i \<Rightarrow> if i \<noteq> [] then i else toString t2)"
  by (simp add: on_data_message_def conn_send_def Let_def)

lemma append_existing_id:
  assumes "\<exists>m. ms' = ms @ [m] \<and> msg_id m = i" and "i \<in> msg_id ` set ms"
  shows "\<not> distinct (map msg_id ms') \<and> take (length ms) ms' = ms"
  using assms by auto

lemma colliding_id_is_appended:
  "(toString idNow \<in> msg_id ` set (messages s) \<longrightarrow>
      (\<not> distinct (map msg_id (messages (sendMessage txt r v idNow tsNow s)))
       \<and> take (length (messages s)) (messages (sendMessage txt r v idNow tsNow s))
           = messages s)
      \<and> (\<not> distinct (map msg_id (messages (sendImage b e v idNow expNow tsNow s)))
       \<and> take (length (messages s)) (messages (sendImage b e v idNow expNow tsNow s))
           = messages s)
      \<and> (\<not> distinct (map msg_id (messages (sendAudio b v idNow tsNow s)))
       \<and> take (length (messages s)) (messages (sendAudio b v idNow tsNow s))
           = messages s))
   \<and> (frame_id p = Some i \<and> i \<noteq> [] \<and> i \<in> msg_id ` set (messages s) \<longrightarrow>
      \<not> distinct (map msg_id (messages (on_data_message conn True p t1 t2 s)))
      \<and> take (length (messages s)) (messages (on_data_message conn True p t1 t2 s))
          = messages s)"
proof -
  have a1: "toString idNow \<in> msg_id ` set (messages s) \<Longrightarrow>
      \<not> distinct (map msg_id (messages (sendMessage txt r v idNow tsNow s)))
      \<and> take (length (messages s)) (messages (sendMessage txt r v idNow tsNow s))
          = messages s"
    by (rule append_existing_id [OF messages_sendMessage])
  have a2: "toString idNow \<in> msg_id ` set (messages s) \<Longrightarrow>
      \<not> distinct (map msg_id (messages (sendImage b e v idNow expNow tsNow s)))
      \<and> take (length (messages s)) (messages (sendImage b e v idNow expNow tsNow s))
          = messages s"
    by (rule append_existing_id [OF messages_sendImage])
  have a3: "toString idNow \<in> msg_id ` set (messages s) \<Longrightarrow>
      \<not> distinct (map msg_id (messages (sendAudio b v idNow tsNow s)))
      \<and> take (length (messages s)) (messages (sendAudio b v idNow tsNow s))
          = messages s"
    by (rule append_existing_id [OF messages_sendAudio])
  have a4: "\<not> distinct (map msg_id (messages (on_data_message conn True p t1 t2 s)))
      \<and> take (length (messages s)) (messages (on_data_message conn True p t1 t2 s))
          = messages s"
    if h: "frame_id p = Some i \<and> i \<noteq> [] \<and> i \<in> msg_id ` set (messages s)"
  proof -
    from messages_on_data_message [of conn p t1 t2 s] h
    have "\<exists>m. messages (on_data_message conn True p t1 t2 s) = messages s @ [m]
            \<and> msg_id m = i"
      by simp
    from append_existing_id [OF this] h show ?thesis by simp
  qed
  from a1 a2 a3 a4 show ?thesis by blast
qed

section \<open>Local sends\<close>

lemma sendMessage_effect:
  "(\<exists>m. messages (sendMessage txt r v idNow tsNow s) = messages s @ [m]
        \<and> sender m = Me \<and> msg_status m = Some Sent \<and> msg_id m = toString idNow
        \<and> (main_open s \<longrightarrow> (\<exists>c f. mainConnRef s = Some c
              \<and> effects (sendMessage txt r v idNow tsNow s) = effects s @ [Send c f]
              \<and> ptype f = T_message \<and> frame_id f = Some (msg_id m))))
   \<and> (\<not> main_open s \<longrightarrow> effects (sendMessage txt r v idNow tsNow s) = effects s)"
  by (simp add: sendMessage_def send_if_open_def conn_send_def main_open_def frame_def Let_def
      split: option.splits)

lemma sendImage_effect:
  "(\<exists>m. messages (sendImage b e v idNow expNow tsNow s) = messages s @ [m]
        \<and> sender m = Me \<and> msg_status m = Some Sent \<and> msg_id m = toString idNow
        \<and> (main_open s \<longrightarrow> (\<exists>c f. mainConnRef s = Some c
              \<and> effects (sendImage b e v idNow expNow tsNow s) = effects s @ [Send c f]
              \<and> ptype f = T_message \<and> frame_id f = Some (msg_id m))))
   \<and> (\<not> main_open s \<longrightarrow> effects (sendImage b e v idNow expNow tsNow s) = effects s)"
  by (simp add: sendImage_def send_if_open_def conn_send_def main_open_def frame_def Let_def
      split: option.splits)

lemma sendAudio_effect:
  "(\<exists>m. messages (sendAudio b v idNow tsNow s) = messages s @ [m]
        \<and> sender m = Me \<and> msg_status m = Some Sent \<and> msg_id m = toString idNow
        \<and> (main_open s \<longrightarrow> (\<exists>c f. mainConnRef s = Some c
              \<and> effects (sendAudio b v idNow tsNow s) = effects s @ [Send c f]
              \<and> ptype f = T_message \<and> frame_id f = Some (msg_id m))))
   \<and> (\<not> main_open s \<longrightarrow> effects (sendAudio b v idNow tsNow s) = effects s)"
  by (simp add: sendAudio_def send_if_open_def conn_send_def main_open_def frame_def Let_def
      split: option.splits)

text \<open>
  Claim C9. Each of \<^verbatim>\<open>sendMessage\<close>, \<^verbatim>\<open>sendImage\<close> and \<^verbatim>\<open>sendAudio\<close> appends one
  Message with sender \<^verbatim>\<open>me\<close> and delivery status \<^verbatim>\<open>sent\<close> to the conversation in every
  state, whether or not there is a primary connection and whether or not it is open. If
  the primary connection exists and is open, exactly one \<^verbatim>\<open>message\<close> frame with the id
  of that Message is sent on it; otherwise nothing is sent, and only the local
  conversation has changed.
\<close>

theorem local_send_appends_and_sends_only_if_open:
  "((\<exists>m. messages (sendMessage txt r v idNow tsNow s) = messages s @ [m]
        \<and> sender m = Me \<and> msg_status m = Some Sent \<and> msg_id m = toString idNow
        \<and> (main_open s \<longrightarrow> (\<exists>c f. mainConnRef s = Some c
              \<and> effects (sendMessage txt r v idNow tsNow s) = effects s @ [Send c f]
              \<and> ptype f = T_message \<and> frame_id f = Some (msg_id m))))
    \<and> (\<not> main_open s \<longrightarrow> effects (sendMessage txt r v idNow tsNow s) = effects s))
   \<and> ((\<exists>m. messages (sendImage b e v idNow expNow tsNow s) = messages s @ [m]
        \<and> sender m = Me \<and> msg_status m = Some Sent \<and> msg_id m = toString idNow
        \<and> (main_open s \<longrightarrow> (\<exists>c f. mainConnRef s = Some c
              \<and> effects (sendImage b e v idNow expNow tsNow s) = effects s @ [Send c f]
              \<and> ptype f = T_message \<and> frame_id f = Some (msg_id m))))
    \<and> (\<not> main_open s \<longrightarrow> effects (sendImage b e v idNow expNow tsNow s) = effects s))
   \<and> ((\<exists>m. messages (sendAudio b v idNow tsNow s) = messages s @ [m]
        \<and> sender m = Me \<and> msg_status m = Some Sent \<and> msg_id m = toString idNow
        \<and> (main_open s \<longrightarrow> (\<exists>c f. mainConnRef s = Some c
              \<and> effects (sendAudio b v idNow tsNow s) = effects s @ [Send c f]
              \<and> ptype f = T_message \<and> frame_id f = Some (msg_id m))))
    \<and> (\<not> main_open s \<longrightarrow> effects (sendAudio b v idNow tsNow s) = effects s))"
  by (intro conjI sendMessage_effect [THEN conjunct1] sendMessage_effect [THEN conjunct2]
      sendImage_effect [THEN conjunct1] sendImage_effect [THEN conjunct2]
      sendAudio_effect [THEN conjunct1] sendAudio_effect [THEN conjunct2])

lemma ex_main_open: "main_open ex_connected" "\<not> main_open ex_searching"
  by (simp_all add: main_open_def ex_connected_fields ex_searching_fields ex_conn_b_def)

text \<open>
  Both cases occur: a send in the connected example goes out on the connection to
  \<open>b\<close>; a send while searching, without primary connection, only changes the
  conversation.
\<close>

theorem local_send_appends_and_sends_only_if_open_witness:
  "main_open ex_connected
   \<and> (\<exists>m c f. messages (sendMessage ''hi'' None None 5 5 ex_connected)
                 = messages ex_connected @ [m]
        \<and> sender m = Me \<and> msg_status m = Some Sent
        \<and> mainConnRef ex_connected = Some c
        \<and> effects (sendMessage ''hi'' None None 5 5 ex_connected)
            = effects ex_connected @ [Send c f]
        \<and> ptype f = T_message \<and> frame_id f = Some (msg_id m))
   \<and> \<not> main_open ex_searching
   \<and> (\<exists>m. messages (sendMessage ''hi'' None None 5 5 ex_searching)
             = messages ex_searching @ [m]
        \<and> sender m = Me \<and> msg_status m = Some Sent)
   \<and> effects (sendMessage ''hi'' None None 5 5 ex_searching) = effects ex_searching"
  using local_send_appends_and_sends_only_if_open
      [of "''hi''" None None 5 5 ex_connected]
    local_send_appends_and_sends_only_if_open
      [of "''hi''" None None 5 5 ex_searching]
    ex_main_open
  by blast

section \<open>The map of direct connections\<close>

text \<open>
  Claim C8, as stated, fails: \<^verbatim>\<open>setupConnection\<close> enters a direct connection into
  \<^verbatim>\<open>directConnsRef\<close> when it is set up, before the transport has opened. After
  \<^verbatim>\<open>callPeer('b')\<close> the map holds a handle for \<open>b\<close> that is not open.
\<close>

theorem direct_entry_not_open_counterexample:
  "directConnsRef (step (UserCallPeer ''b'' (Returned 7)) ex_searching) ''b''
     = Some \<lparr>conn_id = 7, peer = ''b''\<rparr>
   \<and> 7 \<notin> openConns (step (UserCallPeer ''b'' (Returned 7)) ex_searching)"
  by (simp add: ex_defs handler_defs)

text \<open>
  Claim C8, amended. The map of direct connections holds one handle per peer id: setting
  up a direct connection enters its handle under the peer id, in place of an earlier
  entry for that peer id, at setup time and whatever the state of the transport (the
  set of open connections is not changed by it, and the handle need not be open). When
  a direct connection closes, the map entry and the cached profile of its peer id are
  removed.
\<close>

theorem direct_map_entry_lifecycle:
  "directConnsRef (setupConnection conn \<lparr>mtype = TypeDirect\<rparr> s)
     = (directConnsRef s)(peer conn \<mapsto> conn)
   \<and> openConns (setupConnection conn \<lparr>mtype = TypeDirect\<rparr> s) = openConns s
   \<and> directConnsRef (conn_on_close conn False now s) = (directConnsRef s)(peer conn := None)
   \<and> directPeerProfilesRef (conn_on_close conn False now s)
     = (directPeerProfilesRef s)(peer conn := None)"
  by (simp add: setupConnection_def conn_on_close_def Let_def)

section \<open>The matchmaker: selection, dial, timeout and cooldown\<close>

text \<open>
  When the product that the runtime computes lies from 0 up to, and without, the length
  of the list, as it does for a draw of \<^verbatim>\<open>Math.random()\<close>, the array read of the
  matchmaker is in range: the target is an element of the list it chooses from. Element
  \<open>i\<close> is chosen when the product lies from \<open>i\<close> up to, and without, \<open>i + 1\<close>. How
  the products are distributed is the runtime's matter, and so is the probability of
  each choice (claim C6), which this theory does not state.
\<close>

lemma pick_in_range:
  assumes "0 \<le> x" and "x < real (length ws)"
  shows "\<exists>t. pick x ws = Some t \<and> t \<in> set ws"
proof -
  from assms(2) have "\<lfloor>x\<rfloor> < int (length ws)"
    by (simp add: floor_less_iff)
  moreover from assms(1) have "0 \<le> \<lfloor>x\<rfloor>" by simp
  moreover from calculation have "nat \<lfloor>x\<rfloor> < length ws" by linarith
  ultimately show ?thesis by (simp add: pick_def Let_def)
qed

lemma pick_interval:
  assumes "i < length ws" and "real i \<le> x" and "x < real i + 1"
  shows "pick x ws = Some (ws ! i)"
proof -
  from assms(2,3) have "\<lfloor>x\<rfloor> = int i"
    by (simp add: floor_unique)
  with assms(1) show ?thesis by (simp add: pick_def Let_def)
qed

lemma waiters_valid:
  "t \<in> set (waiters s) \<Longrightarrow>
     t \<in> set (onlineUsers s) \<and> ps_status t = P_waiting \<and> Some (ps_peerId t) \<noteq> myPeerId s
     \<and> ps_peerId t \<notin> failedPeersRef s"
  by (simp add: waiters_def)

lemma attemptMatch_schedules_valid:
  assumes "0 \<le> x" and "x < real (length (waiters s))"
  shows "pendingJitter (attemptMatch x s) = pendingJitter s
     \<or> (\<exists>t. pendingJitter (attemptMatch x s) = pendingJitter s @ [Some t]
            \<and> t \<in> set (onlineUsers s) \<and> ps_status t = P_waiting
            \<and> Some (ps_peerId t) \<noteq> myPeerId s \<and> ps_peerId t \<notin> failedPeersRef s)"
proof -
  from pick_in_range [OF assms] obtain t
    where t: "pick x (waiters s) = Some t" "t \<in> set (waiters s)" by blast
  from waiters_valid [OF t(2)] t(1) show ?thesis
    by (simp add: attemptMatch_def)
qed

lemma jitter_callback_dials_target:
  "effects (jitter_callback target outcome s) = effects s
   \<or> (\<exists>t. target = Some t \<and> statusRef s = SEARCHING \<and> mainConnRef s = None
          \<and> effects (jitter_callback target outcome s)
               = effects s @ [Dial (ps_peerId t) TypeRandom])"
  by (simp add: jitter_callback_def setupConnection_def Let_def
      split: option.splits ConnectOutcome.splits)

lemma jitter_fires_dials_pending:
  "effects (step (JitterFires k outcome) s) = effects s
   \<or> (\<exists>t. k < length (pendingJitter s) \<and> pendingJitter s ! k = Some t
          \<and> statusRef s = SEARCHING \<and> mainConnRef s = None
          \<and> effects (step (JitterFires k outcome) s)
               = effects s @ [Dial (ps_peerId t) TypeRandom])"
proof (cases "k < length (pendingJitter s)")
  case False
  then show ?thesis by simp
next
  case True
  with jitter_callback_dials_target [of "pendingJitter s ! k" outcome
      "s\<lparr>pendingJitter := take k (pendingJitter s) @ drop (Suc k) (pendingJitter s)\<rparr>"]
  show ?thesis by auto
qed

text \<open>
  Only the polls of the matchmaker schedule jitter callbacks, and only jitter callbacks
  dial with primary intent: every other event leaves the pending targets and the
  primary dials among the effects as they are.
\<close>

lemma state_after_Inr: "state_after (Inr x) = x"
  by (simp add: state_after_def)

lemma track_keeps:
  "pendingJitter (track st now s) = pendingJitter s"
  "failedPeersRef (track st now s) = failedPeersRef s"
  "filter is_primary_dial (effects (track st now s)) = filter is_primary_dial (effects s)"
  by (simp_all add: track_def)

lemma handleMainDisconnect_keeps:
  "pendingJitter (handleMainDisconnect r now s) = pendingJitter s"
  "failedPeersRef (handleMainDisconnect r now s) = failedPeersRef s"
  "filter is_primary_dial (effects (handleMainDisconnect r now s))
     = filter is_primary_dial (effects s)"
  by (simp_all add: handleMainDisconnect_def track_keeps)

lemma conn_on_close_keeps:
  "pendingJitter (conn_on_close c m now s) = pendingJitter s"
  "failedPeersRef (conn_on_close c m now s) = failedPeersRef s"
  "filter is_primary_dial (effects (conn_on_close c m now s))
     = filter is_primary_dial (effects s)"
  by (simp_all add: conn_on_close_def handleMainDisconnect_keeps)

lemma conn_close_sync_keeps:
  "pendingJitter (conn_close_sync c cb now s) = pendingJitter s"
  "failedPeersRef (conn_close_sync c cb now s) = failedPeersRef s"
  "filter is_primary_dial (effects (conn_close_sync c cb now s))
     = filter is_primary_dial (effects s)"
  by (simp_all add: conn_close_sync_def conn_close_def conn_on_close_keeps split: option.splits)

lemma on_data_message_keeps:
  "pendingJitter (on_data_message c m p t1 t2 s) = pendingJitter s"
  "failedPeersRef (on_data_message c m p t1 t2 s) = failedPeersRef s"
  "filter is_primary_dial (effects (on_data_message c m p t1 t2 s))
     = filter is_primary_dial (effects s)"
  by (simp_all add: on_data_message_def conn_send_def Let_def)

lemma on_data_profile_keeps:
  "pendingJitter (state_after (on_data_profile c m p t1 t2 t3 s)) = pendingJitter s"
  "failedPeersRef (state_after (on_data_profile c m p t1 t2 t3 s)) = failedPeersRef s"
  "filter is_primary_dial (effects (state_after (on_data_profile c m p t1 t2 t3 s)))
     = filter is_primary_dial (effects s)"
  by (simp_all add: on_data_profile_def addToRecentPeers_def state_after_def Let_def
      split: option.splits)

lemma conn_on_data_keeps:
  "pendingJitter (state_after (conn_on_data c m p t1 t2 t3 s)) = pendingJitter s"
  "failedPeersRef (state_after (conn_on_data c m p t1 t2 t3 s)) = failedPeersRef s"
  "filter is_primary_dial (effects (state_after (conn_on_data c m p t1 t2 t3 s)))
     = filter is_primary_dial (effects s)"
  by (simp_all add: conn_on_data_def state_after_Inr on_data_message_keeps
      on_data_profile_keeps handleMainDisconnect_keeps conn_close_sync_keeps
      split: FrameType.splits option.splits JSValue.splits)

lemma primary_dial_only_by_jitter:
  assumes "\<And>k outcome. e \<noteq> JitterFires k outcome"
  shows "filter is_primary_dial (effects (step e s)) = filter is_primary_dial (effects s)"
proof (cases e)
  case (ConnData c p t1 t2 t3)
  then show ?thesis
    using conn_on_data_keeps [of c _ p t1 t2 t3 s]
    by (auto split: option.splits)
next
  case (JitterFires k outcome)
  with assms show ?thesis by blast
qed (auto simp: handler_defs
      split: option.splits ConnectOutcome.splits list.splits prod.splits if_splits)

lemma pending_only_by_poll:
  assumes "\<And>k outcome. e \<noteq> JitterFires k outcome" and "\<And>x. e \<noteq> PollTick x"
  shows "pendingJitter (step e s) = pendingJitter s"
proof (cases e)
  case (ConnData c p t1 t2 t3)
  then show ?thesis
    using conn_on_data_keeps [of c _ p t1 t2 t3 s]
    by (auto split: option.splits)
next
  case (JitterFires k outcome)
  with assms show ?thesis by blast
next
  case (PollTick x)
  with assms show ?thesis by blast
qed (auto simp: handler_defs
      split: option.splits ConnectOutcome.splits list.splits prod.splits if_splits)

text \<open>
  The part of claim C3 about the moment of selection holds. Whenever \<^verbatim>\<open>attemptMatch\<close>
  schedules a dial, its target is, at that moment, a presence record of the snapshot
  with status waiting whose peer id is neither the local peer id nor in the set of
  failed peers. When a pending jitter callback runs, it dials nothing, or it dials
  exactly the target it was scheduled with, and the latter only if the status is still
  SEARCHING and there is no primary connection.
\<close>

lemma matchmaker_selects_valid_and_dials_selected:
  "(0 \<le> x \<and> x < real (length (waiters s)) \<longrightarrow>
      pendingJitter (attemptMatch x s) = pendingJitter s
      \<or> (\<exists>t. pendingJitter (attemptMatch x s) = pendingJitter s @ [Some t]
             \<and> t \<in> set (onlineUsers s) \<and> ps_status t = P_waiting
             \<and> Some (ps_peerId t) \<noteq> myPeerId s \<and> ps_peerId t \<notin> failedPeersRef s))
   \<and> (effects (step (JitterFires k outcome) s2) = effects s2
       \<or> (\<exists>t. k < length (pendingJitter s2) \<and> pendingJitter s2 ! k = Some t
              \<and> statusRef s2 = SEARCHING \<and> mainConnRef s2 = None
              \<and> effects (step (JitterFires k outcome) s2)
                   = effects s2 @ [Dial (ps_peerId t) TypeRandom]))"
  using attemptMatch_schedules_valid [of x s] jitter_fires_dials_pending [of k outcome s2]
  by blast

text \<open>
  In the lobby example the matchmaker selects \<open>b\<close>, a waiting record outside the set of
  failed peers, and the jitter callback dials \<open>b\<close>.
\<close>

lemma matchmaker_selects_valid_and_dials_selected_example:
  "(0::real) \<le> 0 \<and> (0::real) < real (length (waiters ex_lobby))
   \<and> pendingJitter (attemptMatch 0 ex_lobby) = pendingJitter ex_lobby @ [Some ex_waiter_b]
   \<and> ex_waiter_b \<in> set (onlineUsers ex_lobby) \<and> ps_status ex_waiter_b = P_waiting
   \<and> ps_peerId ex_waiter_b \<notin> failedPeersRef ex_lobby
   \<and> effects (step (JitterFires 0 (Returned 1)) (attemptMatch 0 ex_lobby))
       = effects (attemptMatch 0 ex_lobby) @ [Dial ''b'' TypeRandom]"
  using matchmaker_selects_valid_and_dials_selected
      [of 0 ex_lobby 0 "Returned 1" "attemptMatch 0 ex_lobby"]
  by (simp add: ex_defs handler_defs)

text \<open>
  Claim C3: the matchmaker never dials a peer that is in its set of failed peers, and
  the exclusion made at selection still holds when the jitter callback dials. The code
  breaks this. The 5 s timer of a dial is cleared when a primary connection opens, but
  not when the connection of the dial fails or closes: those callbacks only release the
  in-flight flag and the primary connection reference. So the timer of a failed dial
  can fire after the same peer has been selected again, while the jitter callback of
  the new selection is pending; the callback checks the status and the primary
  connection again, but not the set of failed peers. In the run \<open>ex_race\<close>, which
  ends with that timer firing, \<open>b\<close> is in the set of failed peers, the jitter callback
  for \<open>b\<close> is pending, and when it runs it dials \<open>b\<close>.
\<close>

theorem stale_timer_dials_cooldown_peer:
  "''b'' \<in> failedPeersRef ex_race
   \<and> pendingJitter ex_race = [Some ex_waiter_b]
   \<and> effects (step (JitterFires 0 (Returned 2)) ex_race)
       = effects ex_race @ [Dial ''b'' TypeRandom]"
  by (simp add: ex_defs handler_defs)

lemma ex_dialing_fields:
  "connectionTimeout ex_dialing = Some (ex_conn_b, ''b'')" "statusRef ex_dialing = SEARCHING"
  "mainConnRef ex_dialing = Some ex_conn_b" "openConns ex_dialing = {}"
  by (simp_all add: ex_defs handler_defs)

text \<open>
  Claim C5, as stated, fails in its last part: nothing empties the set of failed peers
  periodically. In the example with \<open>b\<close> in the set, polls of the matchmaker, the
  timers, a render and a presence update leave \<open>b\<close> there.
\<close>

theorem cooldown_not_cleared_by_timers_counterexample:
  "failedPeersRef ex_cooldown = {''b''}
   \<and> failedPeersRef (run [PollTick 0, TimeoutFires, JitterFires 0 ReturnedNothing, Render,
         PresenceSync [ex_waiter_b], PollTick (1/2), PollTick 0] ex_cooldown) = {''b''}"
  by (simp add: ex_defs handler_defs)

text \<open>
  No event other than the opening of a connection takes a peer out of the set; the set
  is emptied in one place only, the open callback of a primary connection.
\<close>

lemma failedPeers_step_mono:
  assumes "\<And>c now. e \<noteq> ConnOpen c now"
  shows "failedPeersRef s \<subseteq> failedPeersRef (step e s)"
proof (cases e)
  case (ConnData c p t1 t2 t3)
  then show ?thesis
    using conn_on_data_keeps [of c _ p t1 t2 t3 s]
    by (auto split: option.splits)
next
  case (ConnOpen c now)
  with assms show ?thesis by blast
qed (auto simp: handler_defs
      split: option.splits ConnectOutcome.splits list.splits prod.splits if_splits)

text \<open>
  Under the guard of the timer's callback, running the close callback of a primary
  connection inside \<^verbatim>\<open>conn.close()\<close> changes nothing in the outcome.
\<close>

lemma timeout_close_callback_absorbed:
  assumes "statusRef s = SEARCHING"
  shows "(conn_close_sync conn (Some True) t s)
           \<lparr>mainConnRef := None, failedPeersRef := insert target (failedPeersRef s),
            isMatchmakerRef := False\<rparr>
         = (conn_close conn s)
           \<lparr>mainConnRef := None, failedPeersRef := insert target (failedPeersRef s),
            isMatchmakerRef := False\<rparr>"
  using assms by (simp add: conn_close_sync_def conn_on_close_def conn_close_def)

text \<open>
  Claim C5, amended. When the timer of a dial fires while the status is SEARCHING and
  the primary connection is not open, the connection of that dial is closed, the dialed
  peer id is added to the set of failed peers, the primary connection reference is
  cleared, and the in-flight flag is cleared. The set of failed peers is emptied when a
  primary connection opens, which is when a new connected session begins.
\<close>

theorem timeout_cools_down_and_open_clears:
  "(connectionTimeout s = Some (conn, target) \<and> statusRef s = SEARCHING \<and> \<not> main_open s \<longrightarrow>
      effects (step TimeoutFires s) = effects s @ [Close conn]
      \<and> target \<in> failedPeersRef (step TimeoutFires s)
      \<and> mainConnRef (step TimeoutFires s) = None
      \<and> isMatchmakerRef (step TimeoutFires s) = False)
   \<and> failedPeersRef (conn_on_open c True now s) = {}
   \<and> status (conn_on_open c True now s) = CONNECTED"
  by (simp add: timeout_callback_def main_open_def conn_close_def conn_on_open_def track_def
      conn_send_def Let_def split: option.splits)

theorem timeout_cools_down_and_open_clears_witness:
  "connectionTimeout ex_dialing = Some (ex_conn_b, ''b'') \<and> statusRef ex_dialing = SEARCHING
   \<and> \<not> main_open ex_dialing
   \<and> effects (step TimeoutFires ex_dialing) = effects ex_dialing @ [Close ex_conn_b]
   \<and> ''b'' \<in> failedPeersRef (step TimeoutFires ex_dialing)
   \<and> mainConnRef (step TimeoutFires ex_dialing) = None
   \<and> isMatchmakerRef (step TimeoutFires ex_dialing) = False
   \<and> failedPeersRef (conn_on_open ex_conn_b True 2 ex_dialing) = {}"
  using timeout_cools_down_and_open_clears [of ex_dialing ex_conn_b "''b''" ex_conn_b 2]
  by (simp add: ex_dialing_fields main_open_def)

end
